theory Spec2Isabelle
  imports Main
begin

section \<open>Python values\<close>

text \<open>
  The catalog and the recommendation table are whatever \<^verbatim>\<open>json.load\<close> returns: None,
  booleans, integers, floats, strings, lists, and dicts with string keys. A dict is an
  association list in insertion order with distinct keys, because the search iterates
  over \<^verbatim>\<open>PRODUCTS_MAP.items()\<close> and the order of the result depends on it.

  Strings are HOL strings: a character is a code point below 256, so the model covers
  the text of the Latin-1 range. On that range the string functions below are Python's.

  Python's float is not defined in this repository. The type of floats is the parameter
  \<open>'f\<close>, and what the program asks of floats is the record \<open>builtins\<close>: the constant
  \<^verbatim>\<open>0.0\<close>, \<^verbatim>\<open>float(n)\<close> for an integer (OverflowError is \<open>None\<close>), \<^verbatim>\<open>float(s)\<close> for a
  string (ValueError is \<open>None\<close>) and \<^verbatim>\<open>str(x)\<close> for a float.
\<close>

datatype 'f pyval =
    PNone
  | PBool bool
  | PInt int
  | PFloat 'f
  | PStr string
  | PList "'f pyval list"
  | PDict "(string \<times> 'f pyval) list"

type_synonym 'f pydict = "(string \<times> 'f pyval) list"

datatype py_error = AttributeError | TypeError | KeyError | ValueError | OverflowError

record 'f builtins =
  fzero :: 'f
  float_of_int :: "int \<Rightarrow> 'f option"
  float_of_str :: "string \<Rightarrow> 'f option"
  str_of_float :: "'f \<Rightarrow> string"

subsection \<open>Dictionaries\<close>

text \<open>\<^verbatim>\<open>d.get(k, default)\<close> and \<^verbatim>\<open>d[k] = v\<close>: an existing key keeps its place, a new key
  goes to the end.\<close>

definition dict_get :: "('k \<times> 'v) list \<Rightarrow> 'k \<Rightarrow> 'v \<Rightarrow> 'v" where
  "dict_get d k dflt = (case map_of d k of Some v \<Rightarrow> v | None \<Rightarrow> dflt)"

fun dict_set :: "('k \<times> 'v) list \<Rightarrow> 'k \<Rightarrow> 'v \<Rightarrow> ('k \<times> 'v) list" where
  "dict_set [] k v = [(k, v)]"
| "dict_set ((k', v') # kvs) k v =
     (if k' = k then (k', v) # kvs else (k', v') # dict_set kvs k v)"

subsection \<open>Strings\<close>

text \<open>\<^verbatim>\<open>str.lower()\<close>: the letters A to Z, and the letters 0xC0 to 0xDE other than the
  multiplication sign 0xD7, move up by 0x20; every other code point below 256 stays.\<close>

definition lower_char :: "char \<Rightarrow> char" where
  "lower_char c =
     (let n = (of_char c :: nat)
      in if (0x41 \<le> n \<and> n \<le> 0x5A) \<or> (0xC0 \<le> n \<and> n \<le> 0xDE \<and> n \<noteq> 0xD7)
         then char_of (n + 0x20) else c)"

definition py_lower :: "string \<Rightarrow> string" where
  "py_lower s = map lower_char s"

text \<open>The characters \<^verbatim>\<open>str.strip()\<close> removes: tab, line feed, vertical tab, form feed,
  carriage return, the four separators 0x1C to 0x1F, space, next line 0x85 and the
  no-break space 0xA0.\<close>

definition is_space :: "char \<Rightarrow> bool" where
  "is_space c \<longleftrightarrow>
     c \<in> set [CHR 0x09, CHR 0x0A, CHR 0x0B, CHR 0x0C, CHR 0x0D,
              CHR 0x1C, CHR 0x1D, CHR 0x1E, CHR 0x1F, CHR 0x20, CHR 0x85, CHR 0xA0]"

definition py_strip :: "string \<Rightarrow> string" where
  "py_strip s = rev (dropWhile is_space (rev (dropWhile is_space s)))"

text \<open>\<^verbatim>\<open>q in s\<close> for two strings: \<open>q\<close> occurs in \<open>s\<close> as a contiguous block.\<close>

fun starts_with :: "string \<Rightarrow> string \<Rightarrow> bool" where
  "starts_with [] s = True"
| "starts_with (c # q) [] = False"
| "starts_with (c # q) (d # s) = (c = d \<and> starts_with q s)"

fun str_contains :: "string \<Rightarrow> string \<Rightarrow> bool" where
  "str_contains q [] = (q = [])"
| "str_contains q (c # s) = (starts_with q (c # s) \<or> str_contains q s)"

fun join :: "string \<Rightarrow> string list \<Rightarrow> string" where
  "join sep [] = []"
| "join sep [s] = s"
| "join sep (s # t # ss) = s @ sep @ join sep (t # ss)"

subsection \<open>\<^verbatim>\<open>str\<close> and \<^verbatim>\<open>repr\<close>\<close>

definition digit_char :: "nat \<Rightarrow> char" where
  "digit_char d = ''0123456789abcdef'' ! d"

fun digits :: "nat \<Rightarrow> string" where
  "digits n = (if n < 10 then [digit_char n] else digits (n div 10) @ [digit_char (n mod 10)])"

declare digits.simps [simp del]

definition int_str :: "int \<Rightarrow> string" where
  "int_str n = (if n < 0 then CHR ''-'' # digits (nat (- n)) else digits (nat n))"

text \<open>\<^verbatim>\<open>repr\<close> of a string: double quotes when the string has a single quote and no double
  quote, single quotes otherwise; backslash, the quote, tab, line feed and carriage
  return are escaped, and every other code point that is not printable (below 0x20, from
  0x7F to 0xA0, and the soft hyphen 0xAD) is written \<^verbatim>\<open>\xhh\<close>.\<close>

definition repr_char :: "char \<Rightarrow> char \<Rightarrow> string" where
  "repr_char quote c =
     (if c = quote \<or> c = CHR 0x5C then [CHR 0x5C, c]
      else if c = CHR 0x09 then [CHR 0x5C, CHR ''t'']
      else if c = CHR 0x0A then [CHR 0x5C, CHR ''n'']
      else if c = CHR 0x0D then [CHR 0x5C, CHR ''r'']
      else if (of_char c :: nat) < 0x20 \<or> (0x7F \<le> (of_char c :: nat) \<and> (of_char c :: nat) \<le> 0xA0)
              \<or> c = CHR 0xAD
        then [CHR 0x5C, CHR ''x'', digit_char (of_char c div 16), digit_char (of_char c mod 16)]
      else [c])"

definition repr_str :: "string \<Rightarrow> string" where
  "repr_str s =
     (let quote = (if CHR 0x27 \<in> set s \<and> CHR 0x22 \<notin> set s then CHR 0x22 else CHR 0x27)
      in [quote] @ concat (map (repr_char quote) s) @ [quote])"

fun py_repr :: "'f builtins \<Rightarrow> 'f pyval \<Rightarrow> string" where
  "py_repr B PNone = ''None''"
| "py_repr B (PBool b) = (if b then ''True'' else ''False'')"
| "py_repr B (PInt n) = int_str n"
| "py_repr B (PFloat x) = str_of_float B x"
| "py_repr B (PStr s) = repr_str s"
| "py_repr B (PList xs) = ''['' @ join '', '' (map (py_repr B) xs) @ '']''"
| "py_repr B (PDict kvs) =
     ''{'' @ join '', '' (map (\<lambda>kv. repr_str (fst kv) @ '': '' @ py_repr B (snd kv)) kvs) @ ''}''"

definition py_str :: "'f builtins \<Rightarrow> 'f pyval \<Rightarrow> string" where
  "py_str B v = (case v of PStr s \<Rightarrow> s | _ \<Rightarrow> py_repr B v)"

text \<open>\<^verbatim>\<open>float(v)\<close>: a float is itself, a boolean is 1 or 0, an integer and a string are
  converted, and None, a list or a dict is a TypeError.\<close>

definition py_float :: "'f builtins \<Rightarrow> 'f pyval \<Rightarrow> py_error + 'f" where
  "py_float B v =
     (case v of
        PFloat x \<Rightarrow> Inr x
      | PBool b \<Rightarrow> (case float_of_int B (if b then 1 else 0) of
                     Some x \<Rightarrow> Inr x | None \<Rightarrow> Inl OverflowError)
      | PInt n \<Rightarrow> (case float_of_int B n of Some x \<Rightarrow> Inr x | None \<Rightarrow> Inl OverflowError)
      | PStr s \<Rightarrow> (case float_of_str B s of Some x \<Rightarrow> Inr x | None \<Rightarrow> Inl ValueError)
      | _ \<Rightarrow> Inl TypeError)"

section \<open>The catalog index\<close>

text \<open>
  The three module globals. \<open>PRODUCTS_MAP\<close> maps an identifier to a raw record,
  \<open>PRODUCT_NAMES_MAP\<close> maps a trimmed product name to an identifier, and
  \<open>RECOMMENDATIONS\<close> is whatever the recommendation file held. A value of
  \<open>PRODUCTS_MAP\<close> is a dict: \<^verbatim>\<open>load_data\<close> calls \<^verbatim>\<open>item.get\<close> before it stores \<^verbatim>\<open>item\<close>.
\<close>

record 'f state =
  PRODUCTS_MAP :: "(string \<times> 'f pydict) list"
  PRODUCT_NAMES_MAP :: "(string \<times> string) list"
  RECOMMENDATIONS :: "'f pyval"

definition init_state :: "'f state" where
  "init_state = \<lparr>PRODUCTS_MAP = [], PRODUCT_NAMES_MAP = [], RECOMMENDATIONS = PDict []\<rparr>"

text \<open>
  The file system as \<^verbatim>\<open>load_data\<close> sees it: whether the data directory exists, and for
  each file name in it either nothing, a file that \<^verbatim>\<open>open\<close> or \<^verbatim>\<open>json.load\<close> rejects, or
  the parsed value. Printing is not modelled.
\<close>

datatype 'f json_file = Unreadable | Content "'f pyval"

record 'f env =
  data_dir_exists :: bool
  files :: "string \<Rightarrow> 'f json_file option"

text \<open>One round of the loop over \<^verbatim>\<open>data_list\<close>. \<open>Inr\<close> is the state after the round;
  \<open>Inl\<close> is an exception together with the state it leaves behind.\<close>

definition load_item :: "'f builtins \<Rightarrow> 'f pyval \<Rightarrow> 'f state \<Rightarrow> (py_error \<times> 'f state) + 'f state" where
  "load_item B item st =
     (case item of
        PStr s \<Rightarrow> Inr st
      | PDict d \<Rightarrow>
          (let pid = py_str B (dict_get d ''product_id_numeric''
                               (dict_get d ''product_id'' (PStr ''N/A'')))
           in if pid \<noteq> ''None'' then
                (let st1 = st\<lparr>PRODUCTS_MAP := dict_set (PRODUCTS_MAP st) pid d\<rparr>
                 in case dict_get d ''product_name'' (PStr []) of
                      PStr n \<Rightarrow>
                        Inr (st1\<lparr>PRODUCT_NAMES_MAP :=
                                   dict_set (PRODUCT_NAMES_MAP st1) (py_strip n) pid\<rparr>)
                    | _ \<Rightarrow> Inl (AttributeError, st1))
              else Inr st)
      | _ \<Rightarrow> Inl (AttributeError, st))"

fun load_items :: "'f builtins \<Rightarrow> 'f pyval list \<Rightarrow> 'f state \<Rightarrow> 'f state \<times> py_error option" where
  "load_items B [] st = (st, None)"
| "load_items B (item # items) st =
     (case load_item B item st of
        Inr st' \<Rightarrow> load_items B items st'
      | Inl (e, st') \<Rightarrow> (st', Some e))"

definition data_list :: "'f pyval \<Rightarrow> 'f pyval list" where
  "data_list raw = (case raw of PList xs \<Rightarrow> xs | PDict kvs \<Rightarrow> map snd kvs | _ \<Rightarrow> [])"

text \<open>The body of the first \<^verbatim>\<open>try\<close>: read the catalog file, then run the loop.\<close>

definition load_catalog :: "'f builtins \<Rightarrow> 'f json_file option \<Rightarrow> 'f state \<Rightarrow> 'f state \<times> py_error option" where
  "load_catalog B f st =
     (case f of
        Some (Content raw) \<Rightarrow> load_items B (data_list raw) st
      | _ \<Rightarrow> (st, Some ValueError))"

text \<open>The body of the second \<^verbatim>\<open>try\<close>.\<close>

definition load_recommendations :: "'f json_file option \<Rightarrow> 'f state \<Rightarrow> 'f state \<times> py_error option" where
  "load_recommendations f st =
     (case f of
        Some (Content raw) \<Rightarrow> (st\<lparr>RECOMMENDATIONS := raw\<rparr>, None)
      | _ \<Rightarrow> (st, Some ValueError))"

text \<open>\<^verbatim>\<open>try: ... except: ...\<close> with a handler that only prints or passes: the state the
  body reached is kept and the exception is gone.\<close>

definition try_except :: "'s \<times> py_error option \<Rightarrow> 's \<times> py_error option" where
  "try_except r = (fst r, None)"

definition possible_filenames :: "string list" where
  "possible_filenames = [''product_matrix.json'', ''product_index_map.json'']"

text \<open>\<^verbatim>\<open>load_data\<close> returns the new globals and the exception that reaches the caller, if
  any.\<close>

definition load_data :: "'f builtins \<Rightarrow> 'f env \<Rightarrow> 'f state \<Rightarrow> 'f state \<times> py_error option" where
  "load_data B env st =
     (if \<not> data_dir_exists env then (st, None)
      else
        (let matrix_path = find (\<lambda>fname. files env fname \<noteq> None) possible_filenames;
             r1 = (case matrix_path of
                     Some fname \<Rightarrow> try_except (load_catalog B (files env fname) st)
                   | None \<Rightarrow> (st, None))
         in case snd r1 of
              Some e \<Rightarrow> r1
            | None \<Rightarrow>
                (if files env ''precomputed_hybrid.json'' \<noteq> None
                 then try_except (load_recommendations (files env ''precomputed_hybrid.json'') (fst r1))
                 else (fst r1, None))))"

section \<open>The normalizer\<close>

record 'f normalized =
  p_id :: string
  name :: "'f pyval"
  brand :: "'f pyval"
  rating :: "'f pyval"
  prices :: 'f
  discounted_price :: 'f
  img_link :: "'f pyval"
  p_link :: "'f pyval"

definition normalize_product :: "'f builtins \<Rightarrow> 'f pydict \<Rightarrow> 'f normalized" where
  "normalize_product B p =
     (let price = (case py_float B (dict_get p ''actual_price'' (PInt 0)) of
                     Inr x \<Rightarrow> x
                   | Inl e \<Rightarrow> fzero B);
          disc = (case py_float B (dict_get p ''discounted_price'' (PFloat price)) of
                    Inr x \<Rightarrow> x
                  | Inl e \<Rightarrow> price)
      in \<lparr>p_id = py_str B (dict_get p ''product_id_numeric'' PNone),
          name = dict_get p ''product_name'' (PStr ''Unknown''),
          brand = dict_get p ''Brand'' (PStr ''Generic''),
          rating = dict_get p ''rating'' (PInt 0),
          prices = price,
          discounted_price = disc,
          img_link = dict_get p ''img_link'' (PStr []),
          p_link = dict_get p ''product_link'' (PStr ''#'')\<rparr>)"

section \<open>The search engine\<close>

text \<open>\<^verbatim>\<open>str(p.get('Brand')).lower()\<close>: never raises.\<close>

definition brand_lower :: "'f builtins \<Rightarrow> 'f pydict \<Rightarrow> string" where
  "brand_lower B p = py_lower (py_str B (dict_get p ''Brand'' PNone))"

text \<open>\<^verbatim>\<open>p.get('product_name', '').lower()\<close>: only a string has \<^verbatim>\<open>lower\<close>.\<close>

definition name_lower :: "'f pydict \<Rightarrow> py_error + string" where
  "name_lower p =
     (case dict_get p ''product_name'' (PStr []) of
        PStr n \<Rightarrow> Inr (py_lower n)
      | _ \<Rightarrow> Inl AttributeError)"

subsection \<open>Tier 1: brand\<close>

definition brand_matches :: "'f builtins \<Rightarrow> string \<Rightarrow> (string \<times> 'f pydict) list \<Rightarrow> 'f pydict list" where
  "brand_matches B query pm = map snd (filter (\<lambda>(pid, p). query = brand_lower B p) pm)"

subsection \<open>Tier 2: recommendations of the first record whose name has the query\<close>

text \<open>The loop that sets \<^verbatim>\<open>matched_id\<close> and breaks at the first hit.\<close>

fun find_anchor :: "string \<Rightarrow> (string \<times> 'f pydict) list \<Rightarrow> py_error + string option" where
  "find_anchor query [] = Inr None"
| "find_anchor query ((pid, p) # rest) =
     (case name_lower p of
        Inl e \<Rightarrow> Inl e
      | Inr n \<Rightarrow> if str_contains query n then Inr (Some pid) else find_anchor query rest)"

text \<open>\<^verbatim>\<open>matched_id in RECOMMENDATIONS\<close>, for whatever the recommendation file held: a key of
  a dict, an element of a list, a part of a string, and a TypeError otherwise.\<close>

definition py_in :: "string \<Rightarrow> 'f pyval \<Rightarrow> py_error + bool" where
  "py_in k c =
     (case c of
        PDict kvs \<Rightarrow> Inr (k \<in> fst ` set kvs)
      | PList xs \<Rightarrow> Inr (PStr k \<in> set xs)
      | PStr s \<Rightarrow> Inr (str_contains k s)
      | _ \<Rightarrow> Inl TypeError)"

text \<open>\<^verbatim>\<open>RECOMMENDATIONS[matched_id]\<close> with a string index.\<close>

definition py_getitem :: "'f pyval \<Rightarrow> string \<Rightarrow> py_error + 'f pyval" where
  "py_getitem c k =
     (case c of
        PDict kvs \<Rightarrow> (case map_of kvs k of Some v \<Rightarrow> Inr v | None \<Rightarrow> Inl KeyError)
      | _ \<Rightarrow> Inl TypeError)"

text \<open>\<^verbatim>\<open>for rec in rec_list\<close>: the elements of a list, the keys of a dict, the characters
  of a string.\<close>

definition py_iter :: "'f pyval \<Rightarrow> py_error + 'f pyval list" where
  "py_iter c =
     (case c of
        PList xs \<Rightarrow> Inr xs
      | PDict kvs \<Rightarrow> Inr (map (\<lambda>kv. PStr (fst kv)) kvs)
      | PStr s \<Rightarrow> Inr (map (\<lambda>ch. PStr [ch]) s)
      | _ \<Rightarrow> Inl TypeError)"

text \<open>One round of the loop over \<^verbatim>\<open>rec_list\<close>: what it appends to \<^verbatim>\<open>results\<close>. A stub that
  is not a dict has no \<^verbatim>\<open>get\<close>; a list or a dict as the name cannot be hashed; any other
  name that is not a string is no key of \<open>PRODUCT_NAMES_MAP\<close>.\<close>

definition resolve_rec :: "'f state \<Rightarrow> 'f pyval \<Rightarrow> py_error + 'f pydict list" where
  "resolve_rec st rec =
     (case rec of
        PDict d \<Rightarrow>
          (case dict_get d ''product_name'' PNone of
             PStr n \<Rightarrow>
               (case map_of (PRODUCT_NAMES_MAP st) n of
                  None \<Rightarrow> Inr []
                | Some pid \<Rightarrow>
                    (case map_of (PRODUCTS_MAP st) pid of
                       Some p \<Rightarrow> Inr [p]
                     | None \<Rightarrow> Inl KeyError))
           | PList xs \<Rightarrow> Inl TypeError
           | PDict kvs \<Rightarrow> Inl TypeError
           | _ \<Rightarrow> Inr [])
      | _ \<Rightarrow> Inl AttributeError)"

fun resolve_recs :: "'f state \<Rightarrow> 'f pyval list \<Rightarrow> py_error + 'f pydict list" where
  "resolve_recs st [] = Inr []"
| "resolve_recs st (rec # recs) =
     (case resolve_rec st rec of
        Inl e \<Rightarrow> Inl e
      | Inr ps \<Rightarrow>
          (case resolve_recs st recs of
             Inl e \<Rightarrow> Inl e
           | Inr qs \<Rightarrow> Inr (ps @ qs)))"

text \<open>The value of \<^verbatim>\<open>results\<close> after the block under
  \<^verbatim>\<open>if matched_id and matched_id in RECOMMENDATIONS\<close>; it is still empty when the block is
  not entered.\<close>

definition hybrid_results :: "'f state \<Rightarrow> string option \<Rightarrow> py_error + 'f pydict list" where
  "hybrid_results st matched_id =
     (case matched_id of
        None \<Rightarrow> Inr []
      | Some mid \<Rightarrow>
          if mid = [] then Inr []
          else
            (case py_in mid (RECOMMENDATIONS st) of
               Inl e \<Rightarrow> Inl e
             | Inr False \<Rightarrow> Inr []
             | Inr True \<Rightarrow>
                 (case py_getitem (RECOMMENDATIONS st) mid of
                    Inl e \<Rightarrow> Inl e
                  | Inr recs_val \<Rightarrow>
                      (case py_iter recs_val of
                         Inl e \<Rightarrow> Inl e
                       | Inr recs \<Rightarrow> resolve_recs st recs))))"

subsection \<open>Tier 3: scored fallback\<close>

definition score_of :: "'f builtins \<Rightarrow> string \<Rightarrow> 'f pydict \<Rightarrow> py_error + int" where
  "score_of B query p =
     (case name_lower p of
        Inl e \<Rightarrow> Inl e
      | Inr n \<Rightarrow>
          Inr ((if str_contains query n then 10 else 0)
               + (if str_contains query (brand_lower B p) then 5 else 0)))"

text \<open>The loop that fills \<^verbatim>\<open>scored\<close>, in the order of the scan.\<close>

fun scored_of :: "'f builtins \<Rightarrow> string \<Rightarrow> (string \<times> 'f pydict) list \<Rightarrow> py_error + (int \<times> 'f pydict) list" where
  "scored_of B query [] = Inr []"
| "scored_of B query ((pid, p) # rest) =
     (case score_of B query p of
        Inl e \<Rightarrow> Inl e
      | Inr score \<Rightarrow>
          (case scored_of B query rest of
             Inl e \<Rightarrow> Inl e
           | Inr scored \<Rightarrow> Inr (if score > 0 then (score, p) # scored else scored)))"

text \<open>\<^verbatim>\<open>scored.sort(key=lambda x: x[0], reverse=True)\<close>: Python's sort is stable, and with
  \<^verbatim>\<open>reverse=True\<close> equal keys still keep their order. That is the stable insertion sort on
  the negated score.\<close>

definition sort_scored :: "(int \<times> 'a) list \<Rightarrow> (int \<times> 'a) list" where
  "sort_scored scored = sort_key (\<lambda>x. - fst x) scored"

definition fallback :: "'f builtins \<Rightarrow> string \<Rightarrow> (string \<times> 'f pydict) list \<Rightarrow> py_error + (int \<times> 'f pydict) list" where
  "fallback B query pm =
     (case scored_of B query pm of
        Inl e \<Rightarrow> Inl e
      | Inr scored \<Rightarrow> Inr (sort_scored scored))"

subsection \<open>The route\<close>

text \<open>\<open>q_arg\<close> is the request's \<^verbatim>\<open>q\<close> parameter, \<open>None\<close> when the request has none. The result
  is the list handed to \<^verbatim>\<open>jsonify\<close>, or the exception that leaves the function.\<close>

definition search_products :: "'f builtins \<Rightarrow> 'f state \<Rightarrow> string option \<Rightarrow> py_error + 'f normalized list" where
  "search_products B st q_arg =
     (let query = py_strip (py_lower (case q_arg of Some q \<Rightarrow> q | None \<Rightarrow> []))
      in if query = [] then Inr []
         else if brand_matches B query (PRODUCTS_MAP st) \<noteq> []
           then Inr (map (normalize_product B) (take 20 (brand_matches B query (PRODUCTS_MAP st))))
         else
           (case find_anchor query (PRODUCTS_MAP st) of
              Inl e \<Rightarrow> Inl e
            | Inr matched_id \<Rightarrow>
                (case hybrid_results st matched_id of
                   Inl e \<Rightarrow> Inl e
                 | Inr results \<Rightarrow>
                     if results \<noteq> [] then Inr (map (normalize_product B) (take 20 results))
                     else
                       (case fallback B query (PRODUCTS_MAP st) of
                          Inl e \<Rightarrow> Inl e
                        | Inr scored \<Rightarrow>
                            Inr (map (\<lambda>item. normalize_product B (snd item)) (take 20 scored))))))"

section \<open>Invariants and sample data\<close>

text \<open>Every identifier in the name map is a key of the primary map.\<close>

definition names_resolve :: "'f state \<Rightarrow> bool" where
  "names_resolve st \<longleftrightarrow> snd ` set (PRODUCT_NAMES_MAP st) \<subseteq> fst ` set (PRODUCTS_MAP st)"


text \<open>
  A stand-in for Python's floats, to run the definitions on concrete records: the floats
  with an integral value, each written as that integer. It is Python's behaviour on the
  integers and the plain runs of decimal digits up to \<open>2^53\<close> in size, and it rejects a
  string that has anything else in it (Python accepts more: a sign, a fraction, an
  exponent, surrounding white space).
\<close>

definition digit_val :: "char \<Rightarrow> int" where
  "digit_val c = int (length (takeWhile (\<lambda>d. d \<noteq> c) ''0123456789''))"

definition sample_builtins :: "int builtins" where
  "sample_builtins =
     \<lparr>fzero = 0,
      float_of_int = (\<lambda>n. Some n),
      float_of_str = (\<lambda>s. if s \<noteq> [] \<and> set s \<subseteq> set ''0123456789''
                             then Some (foldl (\<lambda>a c. 10 * a + digit_val c) 0 s) else None),
      str_of_float = (\<lambda>x. int_str x @ ''.0'')\<rparr>"

text \<open>A small catalog directory, to run the definitions: three records and a bare string in
  the catalog file, and one recommendation list.\<close>

definition demo_blue :: "int pydict" where
  "demo_blue =
     [(''product_id_numeric'', PInt 1), (''product_name'', PStr ''Blue Widget ''),
      (''Brand'', PStr ''Acme''), (''actual_price'', PStr ''12'')]"

definition demo_red :: "int pydict" where
  "demo_red =
     [(''product_id_numeric'', PInt 2), (''product_name'', PStr ''Red Widget''),
      (''Brand'', PStr ''Acme''), (''actual_price'', PStr ''n/a''),
      (''discounted_price'', PInt 5)]"

definition demo_lamp :: "int pydict" where
  "demo_lamp = [(''product_id'', PStr ''sku-3''), (''product_name'', PStr ''Green Lamp'')]"

definition demo_records :: "int pyval list" where
  "demo_records = [PDict demo_blue, PStr ''note'', PDict demo_red, PDict demo_lamp]"

definition demo_env :: "int env" where
  "demo_env =
     \<lparr>data_dir_exists = True,
      files = [''product_matrix.json'' \<mapsto> Content (PList demo_records),
               ''precomputed_hybrid.json'' \<mapsto>
                 Content (PDict [(''1'', PList [PDict [(''product_name'', PStr ''Red Widget'')]])])]\<rparr>"

definition demo_state :: "int state" where
  "demo_state = fst (load_data sample_builtins demo_env init_state)"

text \<open>Every key of the primary map is the identifier the load derives from its record, and
  is not the string \<^verbatim>\<open>None\<close>.\<close>

definition keyed :: "'f builtins \<Rightarrow> 'f state \<Rightarrow> bool" where
  "keyed B st \<longleftrightarrow>
     (\<forall>(k, p) \<in> set (PRODUCTS_MAP st).
        k \<noteq> ''None''
        \<and> py_str B (dict_get p ''product_id_numeric'' (dict_get p ''product_id'' (PStr ''N/A''))) = k)"







text \<open>A record whose two price fields do not convert.\<close>

definition demo_bad_prices :: "int pydict" where
  "demo_bad_prices =
     [(''product_id_numeric'', PInt 4), (''actual_price'', PStr ''n/a''),
      (''discounted_price'', PNone)]"

text \<open>A catalog of 25 records of one brand, for the limit of 20.\<close>

definition demo_big_state :: "int state" where
  "demo_big_state =
     \<lparr>PRODUCTS_MAP =
        map (\<lambda>n. (digits n, [(''product_id_numeric'', PInt (int n)), (''Brand'', PStr ''Acme'')]))
          [0..<25],
      PRODUCT_NAMES_MAP = [],
      RECOMMENDATIONS = PDict []\<rparr>"

text \<open>A catalog of one record whose brand is the empty string, and the state its load
  gives.\<close>

definition demo_mug :: "int pydict" where
  "demo_mug = [(''product_id_numeric'', PInt 7), (''product_name'', PStr ''Plain Mug''),
               (''Brand'', PStr [])]"

definition demo_mug_env :: "int env" where
  "demo_mug_env =
     \<lparr>data_dir_exists = True,
      files = [''product_matrix.json'' \<mapsto> Content (PList [PDict demo_mug])]\<rparr>"

definition demo_mug_state :: "int state" where
  "demo_mug_state =
     \<lparr>PRODUCTS_MAP = [(''7'', demo_mug)],
      PRODUCT_NAMES_MAP = [(''Plain Mug'', ''7'')],
      RECOMMENDATIONS = PDict []\<rparr>"

text \<open>A catalog for the fallback and the query \<^verbatim>\<open>lamp\<close>: two records with the query in name
  and brand, two with it in the name only, one with it in the brand only, one without it;
  and the ranking the fallback gives them.\<close>

definition demo_desk_lamp :: "int pydict" where
  "demo_desk_lamp = [(''product_id_numeric'', PInt 10), (''product_name'', PStr ''Desk Lamp''),
                     (''Brand'', PStr ''Lumen'')]"

definition demo_lamp_shade :: "int pydict" where
  "demo_lamp_shade = [(''product_id_numeric'', PInt 11), (''product_name'', PStr ''Lamp Shade''),
                      (''Brand'', PStr ''Lamp Co'')]"

definition demo_bulb :: "int pydict" where
  "demo_bulb = [(''product_id_numeric'', PInt 12), (''product_name'', PStr ''Bulb''),
                (''Brand'', PStr ''LampWorks'')]"

definition demo_floor_lamp :: "int pydict" where
  "demo_floor_lamp = [(''product_id_numeric'', PInt 13), (''product_name'', PStr ''Floor Lamp''),
                      (''Brand'', PStr ''Other'')]"

definition demo_chair :: "int pydict" where
  "demo_chair = [(''product_id_numeric'', PInt 14), (''product_name'', PStr ''Chair''),
                 (''Brand'', PStr ''Seats'')]"

definition demo_lamp_oil :: "int pydict" where
  "demo_lamp_oil = [(''product_id_numeric'', PInt 15), (''product_name'', PStr ''Lamp Oil''),
                    (''Brand'', PStr ''Lamplight'')]"

definition demo_rank_state :: "int state" where
  "demo_rank_state =
     \<lparr>PRODUCTS_MAP = [(''10'', demo_desk_lamp), (''11'', demo_lamp_shade), (''12'', demo_bulb),
                      (''13'', demo_floor_lamp), (''14'', demo_chair), (''15'', demo_lamp_oil)],
      PRODUCT_NAMES_MAP = [(''Desk Lamp'', ''10''), (''Lamp Shade'', ''11''), (''Bulb'', ''12''),
                           (''Floor Lamp'', ''13''), (''Chair'', ''14''), (''Lamp Oil'', ''15'')],
      RECOMMENDATIONS = PDict []\<rparr>"

definition demo_ranked :: "(int \<times> int pydict) list" where
  "demo_ranked = [(15, demo_lamp_shade), (15, demo_lamp_oil), (10, demo_desk_lamp),
                  (10, demo_floor_lamp), (5, demo_bulb)]"

section \<open>Properties\<close>

subsection \<open>Dictionary updates\<close>

lemma keys_dict_set: "fst ` set (dict_set m k v) = insert k (fst ` set m)"
  by (induction m) (force split: if_splits)+

lemma set_dict_set:
  "(k', v') \<in> set (dict_set m k v) \<Longrightarrow> (k' = k \<and> v' = v) \<or> (k', v') \<in> set m"
  by (induction m) (auto split: if_splits)

lemma vals_dict_set: "snd ` set (dict_set m k v) \<subseteq> insert v (snd ` set m)"
  using set_dict_set [of _ _ m k v] by fastforce

subsection \<open>The load keeps the name map inside the primary map\<close>

lemma load_item_names_resolve:
  assumes "names_resolve st"
  shows "case load_item B item st of
           Inr st' \<Rightarrow> names_resolve st'
         | Inl (e, st') \<Rightarrow> names_resolve st'"
proof (cases item)
  case (PDict d)
  let ?pid = "py_str B (dict_get d ''product_id_numeric'' (dict_get d ''product_id'' (PStr ''N/A'')))"
  have step: "snd ` set (dict_set (PRODUCT_NAMES_MAP st) n ?pid)
              \<subseteq> fst ` set (dict_set (PRODUCTS_MAP st) ?pid d)" for n
    using assms vals_dict_set [of "PRODUCT_NAMES_MAP st" n ?pid]
    unfolding names_resolve_def keys_dict_set by blast
  have keep: "snd ` set (PRODUCT_NAMES_MAP st) \<subseteq> fst ` set (dict_set (PRODUCTS_MAP st) ?pid d)"
    using assms by (auto simp: names_resolve_def keys_dict_set)
  show ?thesis
    using assms step keep PDict
    by (simp add: load_item_def Let_def names_resolve_def split: pyval.splits)
qed (use assms in \<open>simp_all add: load_item_def\<close>)

lemma load_items_names_resolve:
  "names_resolve st \<Longrightarrow> names_resolve (fst (load_items B items st))"
proof (induction items arbitrary: st)
  case Nil
  then show ?case by simp
next
  case (Cons item items)
  from load_item_names_resolve [OF Cons.prems, of B item]
  show ?case
    by (auto split: sum.splits intro: Cons.IH)
qed

lemma load_data_names_resolve:
  assumes inv: "names_resolve st"
  shows "names_resolve (fst (load_data B env st))"
proof -
  have rec: "names_resolve s \<Longrightarrow> names_resolve (fst (try_except (load_recommendations f s)))"
    for s :: "'a state" and f
    by (simp add: try_except_def load_recommendations_def names_resolve_def
          split: option.splits json_file.splits)
  have cat: "names_resolve (fst (try_except (load_catalog B f st)))" for f
    using inv load_items_names_resolve [OF inv]
    by (simp add: try_except_def load_catalog_def split: option.splits json_file.splits)
  show ?thesis
    using inv rec cat
    by (simp add: load_data_def Let_def try_except_def [where r = "load_catalog _ _ _"]
          split: option.splits)
qed

text \<open>
  C8. When every identifier in the name map is a key of the primary map before the load
  (as it is in the empty maps the module starts with), the same holds after
  \<open>load_data\<close>, and it holds after any number of rounds of the load loop, also when
  a round ends in an exception between the two insertions.
\<close>

theorem load_data_secondary_in_primary:
  assumes "names_resolve st"
  shows "names_resolve (fst (load_data B env st))
         \<and> (\<forall>n. names_resolve (fst (load_items B (take n items) st)))"
  using assms load_data_names_resolve load_items_names_resolve by blast

theorem load_data_secondary_in_primary_witness:
  "names_resolve (init_state :: int state)
   \<and> names_resolve (fst (load_data sample_builtins demo_env init_state))
   \<and> names_resolve (fst (load_items sample_builtins (take 3 demo_records) init_state))
   \<and> PRODUCT_NAMES_MAP (fst (load_data sample_builtins demo_env init_state))
       = [(''Blue Widget'', ''1''), (''Red Widget'', ''2''), (''Green Lamp'', ''sku-3'')]"
proof -
  have h: "names_resolve (init_state :: int state)"
    by (simp add: names_resolve_def init_state_def)
  have v: "PRODUCT_NAMES_MAP (fst (load_data sample_builtins demo_env init_state))
       = [(''Blue Widget'', ''1''), (''Red Widget'', ''2''), (''Green Lamp'', ''sku-3'')]"
    by code_simp
  show ?thesis
    using h v load_data_secondary_in_primary [OF h, of sample_builtins demo_env demo_records]
    by blast
qed

subsection \<open>The keys of the primary map\<close>

lemma load_item_products:
  assumes "load_item B item st = Inr st' \<or> load_item B item st = Inl (e, st')"
  shows "PRODUCTS_MAP st' = PRODUCTS_MAP st
         \<or> (\<exists>d. item = PDict d
                \<and> py_str B (dict_get d ''product_id_numeric'' (dict_get d ''product_id'' (PStr ''N/A''))) \<noteq> ''None''
                \<and> PRODUCTS_MAP st' =
                    dict_set (PRODUCTS_MAP st)
                      (py_str B (dict_get d ''product_id_numeric'' (dict_get d ''product_id'' (PStr ''N/A'')))) d)"
  using assms
  by (cases item) (auto simp: load_item_def Let_def split: pyval.splits if_splits)


lemma keyed_dict_set:
  assumes "keyed B st"
    and "py_str B (dict_get d ''product_id_numeric'' (dict_get d ''product_id'' (PStr ''N/A''))) = k"
    and "k \<noteq> ''None''"
    and "PRODUCTS_MAP st' = dict_set (PRODUCTS_MAP st) k d"
  shows "keyed B st'"
  unfolding keyed_def
proof (intro ballI, clarify)
  fix k' p assume "(k', p) \<in> set (PRODUCTS_MAP st')"
  then have "(k' = k \<and> p = d) \<or> (k', p) \<in> set (PRODUCTS_MAP st)"
    using assms(4) set_dict_set [of k' p "PRODUCTS_MAP st" k d] by simp
  then show "k' \<noteq> ''None'' \<and>
       py_str B (dict_get p ''product_id_numeric'' (dict_get p ''product_id'' (PStr ''N/A''))) = k'"
  proof
    assume "k' = k \<and> p = d"
    then show ?thesis using assms(2,3) by blast
  next
    assume "(k', p) \<in> set (PRODUCTS_MAP st)"
    then show ?thesis using assms(1) unfolding keyed_def by blast
  qed
qed

lemma keyed_same: "keyed B st \<Longrightarrow> PRODUCTS_MAP st' = PRODUCTS_MAP st \<Longrightarrow> keyed B st'"
  by (simp add: keyed_def)

lemma load_item_keyed:
  assumes "keyed B st"
    and "load_item B item st = Inr st' \<or> load_item B item st = Inl (e, st')"
  shows "keyed B st'"
  using load_item_products [OF assms(2)] keyed_same [OF assms(1)] keyed_dict_set [OF assms(1)]
  by blast

lemma load_items_keyed: "keyed B st \<Longrightarrow> keyed B (fst (load_items B items st))"
proof (induction items arbitrary: st)
  case Nil
  then show ?case by simp
next
  case (Cons item items)
  show ?case
  proof (cases "load_item B item st")
    case (Inl a)
    obtain e st' where a: "a = (e, st')" by (cases a)
    with Inl Cons.prems have "keyed B st'" using load_item_keyed by blast
    with Inl a show ?thesis by simp
  next
    case (Inr st')
    with Cons.prems have "keyed B st'" using load_item_keyed by blast
    with Inr show ?thesis by (simp add: Cons.IH)
  qed
qed

lemma load_data_products:
  "PRODUCTS_MAP (fst (load_data B env st)) = PRODUCTS_MAP st
   \<or> (\<exists>items. PRODUCTS_MAP (fst (load_data B env st)) = PRODUCTS_MAP (fst (load_items B items st)))"
  by (auto simp: load_data_def Let_def try_except_def load_catalog_def load_recommendations_def
        split: option.splits json_file.splits)

lemma load_data_keyed:
  assumes "keyed B st"
  shows "keyed B (fst (load_data B env st))"
  using load_data_products [of B env st] keyed_same [OF assms] load_items_keyed [OF assms]
    keyed_same
  by metis


lemma keyed_init: "keyed B init_state"
  by (simp add: keyed_def init_state_def)

lemma p_id_without_numeric:
  "map_of p ''product_id_numeric'' = None \<Longrightarrow> p_id (normalize_product B p) = ''None''"
  by (simp add: normalize_product_def Let_def dict_get_def py_str_def)

lemma p_id_with_numeric:
  "map_of p ''product_id_numeric'' = Some v \<Longrightarrow> p_id (normalize_product B p) = py_str B v"
  by (simp add: normalize_product_def Let_def dict_get_def)

lemma key_without_numeric:
  assumes "map_of p ''product_id_numeric'' = None"
    and "(k, p) \<in> set (PRODUCTS_MAP (fst (load_data B env init_state)))"
  shows "k = py_str B (dict_get p ''product_id'' (PStr ''N/A''))" and "k \<noteq> ''None''"
proof -
  from assms(2) load_data_keyed [OF keyed_init, of B env]
  have k: "k \<noteq> ''None''"
    and "py_str B (dict_get p ''product_id_numeric'' (dict_get p ''product_id'' (PStr ''N/A''))) = k"
    unfolding keyed_def by blast+
  moreover have "dict_get p ''product_id_numeric'' (dict_get p ''product_id'' (PStr ''N/A''))
                 = dict_get p ''product_id'' (PStr ''N/A'')"
    using assms(1) by (simp add: dict_get_def)
  ultimately show "k = py_str B (dict_get p ''product_id'' (PStr ''N/A''))"
    by simp
  show "k \<noteq> ''None''" by (rule k)
qed

text \<open>
  C10. The normalized identifier is the string of the field \<^verbatim>\<open>product_id_numeric\<close> and of
  nothing else: when the record has the field, it is the string of its value, whatever
  else the record holds; when the record has no such field, it is \<^verbatim>\<open>None\<close>, also when the
  record has a \<^verbatim>\<open>product_id\<close>. A record without the field that the load indexed has the
  string of its \<^verbatim>\<open>product_id\<close> field (or \<^verbatim>\<open>N/A\<close>) as its key, and the normalized identifier
  is not that key.
\<close>

theorem normalize_product_id_no_fallback:
  "(map_of p ''product_id_numeric'' = Some v \<longrightarrow> p_id (normalize_product B p) = py_str B v)
   \<and> (map_of p ''product_id_numeric'' = None
      \<longrightarrow> p_id (normalize_product B p) = ''None''
        \<and> ((k, p) \<in> set (PRODUCTS_MAP (fst (load_data B env init_state)))
             \<longrightarrow> k = py_str B (dict_get p ''product_id'' (PStr ''N/A''))
                 \<and> p_id (normalize_product B p) \<noteq> k))"
proof (intro conjI impI)
  assume "map_of p ''product_id_numeric'' = Some v"
  then show "p_id (normalize_product B p) = py_str B v" by (rule p_id_with_numeric)
next
  assume "map_of p ''product_id_numeric'' = None"
  then show "p_id (normalize_product B p) = ''None''" by (rule p_id_without_numeric)
next
  assume "map_of p ''product_id_numeric'' = None"
    and "(k, p) \<in> set (PRODUCTS_MAP (fst (load_data B env init_state)))"
  then show "k = py_str B (dict_get p ''product_id'' (PStr ''N/A''))"
    by (rule key_without_numeric)
next
  assume a: "map_of p ''product_id_numeric'' = None"
    and "(k, p) \<in> set (PRODUCTS_MAP (fst (load_data B env init_state)))"
  then have "k \<noteq> ''None''" by (rule key_without_numeric)
  with p_id_without_numeric [OF a, of B] show "p_id (normalize_product B p) \<noteq> k"
    by simp
qed

theorem normalize_product_id_no_fallback_witness:
  "map_of demo_blue ''product_id_numeric'' = Some (PInt 1)
   \<and> p_id (normalize_product sample_builtins demo_blue) = ''1''
   \<and> map_of demo_lamp ''product_id_numeric'' = None
   \<and> map_of demo_lamp ''product_id'' = Some (PStr ''sku-3'')
   \<and> (''sku-3'', demo_lamp)
        \<in> set (PRODUCTS_MAP (fst (load_data sample_builtins demo_env init_state)))
   \<and> p_id (normalize_product sample_builtins demo_lamp) = ''None''
   \<and> p_id (normalize_product sample_builtins demo_lamp) \<noteq> ''sku-3''"
proof -
  have b1: "map_of demo_blue ''product_id_numeric'' = Some (PInt 1)"
    by (simp add: demo_blue_def)
  have b2: "py_str sample_builtins (PInt 1) = ''1''"
    by code_simp
  have h1: "map_of demo_lamp ''product_id_numeric'' = None"
    by (simp add: demo_lamp_def)
  have h0: "map_of demo_lamp ''product_id'' = Some (PStr ''sku-3'')"
    by (simp add: demo_lamp_def)
  have h2: "(''sku-3'', demo_lamp)
              \<in> set (PRODUCTS_MAP (fst (load_data sample_builtins demo_env init_state)))"
    by code_simp
  note tb = normalize_product_id_no_fallback
              [of demo_blue "PInt 1" sample_builtins "''1''" demo_env]
  from tb b1 have "p_id (normalize_product sample_builtins demo_blue) = py_str sample_builtins (PInt 1)"
    by blast
  with b2 have a0: "p_id (normalize_product sample_builtins demo_blue) = ''1''"
    by simp
  note t = normalize_product_id_no_fallback
             [of demo_lamp "PNone" sample_builtins "''sku-3''" demo_env]
  from t h1 have a: "p_id (normalize_product sample_builtins demo_lamp) = ''None''"
    by blast
  from t h1 h2 have b: "p_id (normalize_product sample_builtins demo_lamp) \<noteq> ''sku-3''"
    by blast
  show ?thesis
    using b1 a0 h1 h0 h2 a b by (intro conjI)
qed

text \<open>
  C1. A record with neither identifier field gets the identifier \<^verbatim>\<open>N/A\<close>, the literal the
  load falls back to; the load tests the identifier against \<^verbatim>\<open>None\<close>, so this record is
  indexed in both maps, under \<^verbatim>\<open>N/A\<close>.
\<close>

theorem load_data_indexes_record_without_identifier:
  "load_data sample_builtins
     \<lparr>data_dir_exists = True,
      files = [''product_matrix.json'' \<mapsto>
                 Content (PList [PDict [(''product_name'', PStr ''Lamp'')]])]\<rparr>
     init_state
   = (\<lparr>PRODUCTS_MAP = [(''N/A'', [(''product_name'', PStr ''Lamp'')])],
       PRODUCT_NAMES_MAP = [(''Lamp'', ''N/A'')],
       RECOMMENDATIONS = PDict []\<rparr>, None)"
  by code_simp

subsection \<open>Failures of the load\<close>









subsection \<open>The normalizer\<close>

lemma prices_default:
  assumes "float_of_int B 0 = Some (fzero B)"
    and "map_of p ''actual_price'' = None
         \<or> (\<exists>v e. map_of p ''actual_price'' = Some v \<and> py_float B v = Inl e)"
  shows "prices (normalize_product B p) = fzero B"
  using assms
  by (auto simp: normalize_product_def Let_def dict_get_def py_float_def)

lemma discounted_default:
  assumes "map_of p ''discounted_price'' = None
           \<or> (\<exists>v e. map_of p ''discounted_price'' = Some v \<and> py_float B v = Inl e)"
  shows "discounted_price (normalize_product B p) = prices (normalize_product B p)"
  using assms
  by (auto simp: normalize_product_def Let_def dict_get_def py_float_def)

text \<open>
  C3, as the code has it. \<open>normalize_product\<close> has a value for every record: a conversion
  that raises is the \<open>Inl\<close> branch and gives the default. With \<^verbatim>\<open>float(0)\<close> being \<^verbatim>\<open>0.0\<close>, a
  record whose \<^verbatim>\<open>actual_price\<close> is absent or does not convert gets the price \<^verbatim>\<open>0.0\<close>; a record
  whose \<^verbatim>\<open>discounted_price\<close> is absent or does not convert gets its price as the discounted
  price.
\<close>

theorem normalize_product_price_defaults:
  assumes "float_of_int B 0 = Some (fzero B)"
  shows "(map_of p ''actual_price'' = None
            \<or> (\<exists>v e. map_of p ''actual_price'' = Some v \<and> py_float B v = Inl e)
          \<longrightarrow> prices (normalize_product B p) = fzero B)
         \<and> (map_of p ''discounted_price'' = None
            \<or> (\<exists>v e. map_of p ''discounted_price'' = Some v \<and> py_float B v = Inl e)
          \<longrightarrow> discounted_price (normalize_product B p) = prices (normalize_product B p))"
  using prices_default [OF assms, of p] discounted_default [of p B]
  by blast

theorem normalize_product_price_defaults_witness:
  "float_of_int sample_builtins 0 = Some (fzero sample_builtins)
   \<and> map_of demo_bad_prices ''actual_price'' = Some (PStr ''n/a'')
   \<and> py_float sample_builtins (PStr ''n/a'') = Inl ValueError
   \<and> map_of demo_bad_prices ''discounted_price'' = Some PNone
   \<and> py_float sample_builtins PNone = Inl TypeError
   \<and> prices (normalize_product sample_builtins demo_bad_prices) = fzero sample_builtins
   \<and> discounted_price (normalize_product sample_builtins demo_bad_prices)
       = prices (normalize_product sample_builtins demo_bad_prices)"
proof -
  have h0: "float_of_int sample_builtins 0 = Some (fzero sample_builtins)"
    by (simp add: sample_builtins_def)
  have h1: "map_of demo_bad_prices ''actual_price'' = Some (PStr ''n/a'')"
    by (simp add: demo_bad_prices_def)
  have h2: "py_float sample_builtins (PStr ''n/a'') = Inl ValueError"
    by code_simp
  have h3: "map_of demo_bad_prices ''discounted_price'' = Some PNone"
    by (simp add: demo_bad_prices_def)
  have h4: "py_float sample_builtins PNone = Inl TypeError"
    by (simp add: py_float_def)
  note t = normalize_product_price_defaults [OF h0, of demo_bad_prices]
  from t h1 h2 have a: "prices (normalize_product sample_builtins demo_bad_prices) = fzero sample_builtins"
    by blast
  from t h3 h4 have b: "discounted_price (normalize_product sample_builtins demo_bad_prices)
       = prices (normalize_product sample_builtins demo_bad_prices)"
    by blast
  show ?thesis using h0 h1 h2 h3 h4 a b by blast
qed

text \<open>
  C3 as stated fails when the discounted price converts: the record has a price that is
  not numeric and the discounted price 5, and is normalized to the price 0 and the
  discounted price 5.
\<close>

theorem normalize_product_discount_differs:
  "map_of demo_red ''actual_price'' = Some (PStr ''n/a'')
   \<and> py_float sample_builtins (PStr ''n/a'') = Inl ValueError
   \<and> prices (normalize_product sample_builtins demo_red) = 0
   \<and> discounted_price (normalize_product sample_builtins demo_red) = 5
   \<and> discounted_price (normalize_product sample_builtins demo_red)
       \<noteq> prices (normalize_product sample_builtins demo_red)"
  by code_simp

subsection \<open>The search: blank queries and the limit\<close>











text \<open>
  C4. Whatever the query, the catalog and the recommendation table, a list that
  \<open>search_products\<close> returns has at most 20 entries.
\<close>

theorem search_products_length:
  "search_products B st q_arg = Inr rs \<Longrightarrow> length rs \<le> 20"
  unfolding search_products_def Let_def
  by (auto split: if_splits sum.splits)

theorem search_products_length_witness:
  "search_products sample_builtins demo_big_state (Some ''ACME'')
     = Inr (map (normalize_product sample_builtins) (take 20 (map snd (PRODUCTS_MAP demo_big_state))))
   \<and> length (PRODUCTS_MAP demo_big_state) = 25
   \<and> length (map (normalize_product sample_builtins) (take 20 (map snd (PRODUCTS_MAP demo_big_state)))) \<le> 20"
proof -
  have h: "search_products sample_builtins demo_big_state (Some ''ACME'')
     = Inr (map (normalize_product sample_builtins) (take 20 (map snd (PRODUCTS_MAP demo_big_state))))"
    by code_simp
  have n: "length (PRODUCTS_MAP demo_big_state) = 25"
    by (simp add: demo_big_state_def)
  from search_products_length [OF h]
  have "length (map (normalize_product sample_builtins) (take 20 (map snd (PRODUCTS_MAP demo_big_state)))) \<le> 20" .
  with h n show ?thesis by (intro conjI)
qed

subsection \<open>The brand tier\<close>

lemma search_products_brand:
  assumes "py_strip (py_lower q) = query" and "query \<noteq> []"
    and "brand_matches B query (PRODUCTS_MAP st) \<noteq> []"
  shows "search_products B st (Some q)
         = Inr (map (normalize_product B) (take 20 (brand_matches B query (PRODUCTS_MAP st))))"
  using assms by (simp add: search_products_def)

lemma brand_matches_nonempty:
  "(pid, p) \<in> set pm \<Longrightarrow> query = brand_lower B p \<Longrightarrow> brand_matches B query pm \<noteq> []"
  by (auto simp: brand_matches_def filter_empty_conv)

text \<open>
  C5, as the code has it. For a query that is not empty after lowering and trimming: when
  the lowered brand of some record of the catalog is the query, the search returns the
  first 20 records with that brand, normalized, in the order of the catalog; the name map
  and the recommendation table have no part in the result.
\<close>

theorem search_products_brand_tier:
  assumes "py_strip (py_lower q) = query" and "query \<noteq> []"
    and "(pid, p) \<in> set (PRODUCTS_MAP st)" and "query = brand_lower B p"
  shows "search_products B st (Some q)
           = Inr (map (normalize_product B)
                    (take 20 (map snd (filter (\<lambda>(pid, p). query = brand_lower B p) (PRODUCTS_MAP st)))))
         \<and> search_products B (st\<lparr>PRODUCT_NAMES_MAP := names, RECOMMENDATIONS := recs\<rparr>) (Some q)
           = search_products B st (Some q)"
proof -
  have ne: "brand_matches B query (PRODUCTS_MAP st) \<noteq> []"
    using assms(3,4) by (rule brand_matches_nonempty)
  have a: "search_products B st (Some q)
         = Inr (map (normalize_product B) (take 20 (brand_matches B query (PRODUCTS_MAP st))))"
    using assms(1,2) ne by (rule search_products_brand)
  have b: "search_products B (st\<lparr>PRODUCT_NAMES_MAP := names, RECOMMENDATIONS := recs\<rparr>) (Some q)
         = Inr (map (normalize_product B) (take 20 (brand_matches B query (PRODUCTS_MAP st))))"
    using search_products_brand [OF assms(1,2), of B "st\<lparr>PRODUCT_NAMES_MAP := names, RECOMMENDATIONS := recs\<rparr>"] ne
    by simp
  show ?thesis using a b by (simp add: brand_matches_def)
qed

theorem search_products_brand_tier_witness:
  "py_strip (py_lower '' ACME '') = ''acme''
   \<and> (''2'', demo_red) \<in> set (PRODUCTS_MAP demo_state)
   \<and> ''acme'' = brand_lower sample_builtins demo_red
   \<and> search_products sample_builtins demo_state (Some '' ACME '')
       = Inr (map (normalize_product sample_builtins)
                (take 20 (map snd (filter (\<lambda>(pid, p). ''acme'' = brand_lower sample_builtins p)
                                     (PRODUCTS_MAP demo_state)))))
   \<and> map snd (filter (\<lambda>(pid, p). ''acme'' = brand_lower sample_builtins p) (PRODUCTS_MAP demo_state))
       = [demo_blue, demo_red]"
proof -
  have h1: "py_strip (py_lower '' ACME '') = ''acme''" by code_simp
  have h2: "''acme'' \<noteq> []" by simp
  have h3: "(''2'', demo_red) \<in> set (PRODUCTS_MAP demo_state)" by code_simp
  have h4: "''acme'' = brand_lower sample_builtins demo_red" by code_simp
  have v: "map snd (filter (\<lambda>(pid, p). ''acme'' = brand_lower sample_builtins p) (PRODUCTS_MAP demo_state))
       = [demo_blue, demo_red]" by code_simp
  from search_products_brand_tier [OF h1 h2 h3 h4]
  have "search_products sample_builtins demo_state (Some '' ACME '')
       = Inr (map (normalize_product sample_builtins)
                (take 20 (map snd (filter (\<lambda>(pid, p). ''acme'' = brand_lower sample_builtins p)
                                     (PRODUCTS_MAP demo_state)))))"
    by (rule conjunct1)
  with h1 h3 h4 v show ?thesis by (intro conjI)
qed

text \<open>
  C5 as stated fails for the empty query: the record's brand is the empty string, which
  is the query, and the search returns the empty list, not that record.
\<close>

theorem search_products_empty_brand_empty_query:
  "fst (load_data sample_builtins demo_mug_env init_state) = demo_mug_state
   \<and> (''7'', demo_mug) \<in> set (PRODUCTS_MAP demo_mug_state)
   \<and> py_strip (py_lower []) = brand_lower sample_builtins demo_mug
   \<and> search_products sample_builtins demo_mug_state (Some []) = Inr []
   \<and> map (normalize_product sample_builtins)
        (take 20 (brand_matches sample_builtins (py_strip (py_lower [])) (PRODUCTS_MAP demo_mug_state)))
       = [normalize_product sample_builtins demo_mug]"
  by code_simp








subsection \<open>The scored fallback\<close>

lemma score_of_both:
  "name_lower p = Inr n \<Longrightarrow> str_contains query n \<Longrightarrow> str_contains query (brand_lower B p)
   \<Longrightarrow> score_of B query p = Inr 15"
  by (simp add: score_of_def)

lemma score_of_one:
  "name_lower p = Inr n \<Longrightarrow> str_contains query n \<noteq> str_contains query (brand_lower B p)
   \<Longrightarrow> score_of B query p = (if str_contains query n then Inr 10 else Inr 5)"
  by (auto simp: score_of_def)

lemma score_of_values: "score_of B query p = Inr s \<Longrightarrow> s \<in> {0, 5, 10, 15}"
  by (auto simp: score_of_def split: sum.splits if_splits)

lemma scored_of_entries:
  "scored_of B query pm = Inr scored \<Longrightarrow> (s, p) \<in> set scored
   \<Longrightarrow> score_of B query p = Inr s \<and> 0 < s"
proof (induction pm arbitrary: scored)
  case Nil
  then show ?case by simp
next
  case (Cons a pm)
  obtain pid r where a: "a = (pid, r)" by (cases a)
  from Cons.prems(1) a obtain sc rest where
    sc: "score_of B query r = Inr sc" and rest: "scored_of B query pm = Inr rest"
    and eq: "scored = (if sc > 0 then (sc, r) # rest else rest)"
    by (auto split: sum.splits)
  show ?case
  proof (cases "(s, p) \<in> set rest")
    case True
    then show ?thesis using Cons.IH [OF rest] by blast
  next
    case False
    with Cons.prems(2) eq have "sc > 0" and "(s, p) = (sc, r)"
      by (auto split: if_splits)
    with sc show ?thesis by simp
  qed
qed

lemma scored_of_order:
  "scored_of B query pm = Inr scored \<Longrightarrow> 0 < k
   \<Longrightarrow> map snd (filter (\<lambda>x. fst x = k) scored)
       = map snd (filter (\<lambda>(pid, p). score_of B query p = Inr k) pm)"
proof (induction pm arbitrary: scored)
  case Nil
  then show ?case by simp
next
  case (Cons a pm)
  obtain pid r where a: "a = (pid, r)" by (cases a)
  from Cons.prems(1) a obtain sc rest where
    sc: "score_of B query r = Inr sc" and rest: "scored_of B query pm = Inr rest"
    and eq: "scored = (if sc > 0 then (sc, r) # rest else rest)"
    by (auto split: sum.splits)
  from Cons.IH [OF rest Cons.prems(2)] a sc eq Cons.prems(2)
  show ?case by auto
qed

lemma sort_scored_set: "set (sort_scored xs) = set xs"
  by (simp add: sort_scored_def)

lemma sort_scored_stable: "filter (\<lambda>x. fst x = k) (sort_scored xs) = filter (\<lambda>x. fst x = k) xs"
  using sort_key_stable [of "\<lambda>x. - fst x" "- k" xs]
  by (simp add: sort_scored_def)

lemma sort_scored_descending:
  assumes "i \<le> j" and "j < length (sort_scored xs)"
  shows "fst (sort_scored xs ! j) \<le> fst (sort_scored xs ! i)"
proof -
  have "sorted (map (\<lambda>x. - fst x) (sort_scored xs))"
    by (simp add: sort_scored_def)
  then have "map (\<lambda>x. - fst x) (sort_scored xs) ! i \<le> map (\<lambda>x. - fst x) (sort_scored xs) ! j"
    using assms by (simp add: sorted_iff_nth_mono)
  then show ?thesis using assms by simp
qed


lemma fallback_entries:
  assumes "fallback B query pm = Inr ranked" and "(s, r) \<in> set ranked"
  shows "score_of B query r = Inr s \<and> s \<in> {5, 10, 15}"
proof -
  from assms(1) obtain scored where sc: "scored_of B query pm = Inr scored"
    and r: "ranked = sort_scored scored"
    by (auto simp: fallback_def split: sum.splits)
  from assms(2) r have "(s, r) \<in> set scored" by (simp add: sort_scored_set)
  with sc have a: "score_of B query r = Inr s" and b: "0 < s"
    using scored_of_entries by blast+
  from score_of_values [OF a] b show ?thesis using a by auto
qed

lemma fallback_higher_first:
  assumes "fallback B query pm = Inr ranked"
    and "i < length ranked" and "j < length ranked"
    and "fst (ranked ! j) < fst (ranked ! i)"
  shows "i < j"
proof (rule ccontr)
  assume "\<not> i < j"
  then have "j \<le> i" by simp
  moreover from assms(1) obtain scored where r: "ranked = sort_scored scored"
    by (auto simp: fallback_def split: sum.splits)
  ultimately have "fst (ranked ! i) \<le> fst (ranked ! j)"
    using assms(2) sort_scored_descending by blast
  with assms(4) show False by simp
qed

lemma fallback_stable:
  assumes "fallback B query pm = Inr ranked" and "0 < k"
  shows "map snd (filter (\<lambda>x. fst x = k) ranked)
         = map snd (filter (\<lambda>(pid, r). score_of B query r = Inr k) pm)"
proof -
  from assms(1) obtain scored where sc: "scored_of B query pm = Inr scored"
    and r: "ranked = sort_scored scored"
    by (auto simp: fallback_def split: sum.splits)
  show ?thesis
    unfolding r sort_scored_stable using scored_of_order [OF sc assms(2)] .
qed

lemma search_products_fallback:
  assumes "py_strip (py_lower q) = query" and "query \<noteq> []"
    and "brand_matches B query (PRODUCTS_MAP st) = []"
    and "find_anchor query (PRODUCTS_MAP st) = Inr mid"
    and "hybrid_results st mid = Inr []"
    and "fallback B query (PRODUCTS_MAP st) = Inr ranked"
  shows "search_products B st (Some q)
         = Inr (map (\<lambda>item. normalize_product B (snd item)) (take 20 ranked))"
  using assms by (simp add: search_products_def)

text \<open>
  C6. A record whose lowered name and lowered brand both contain the query scores 15; a
  record with the query in only one of them scores 10 or 5. In the ranking of the
  fallback every entry has its score, which is 5, 10 or 15 (a record that scores 0 is not
  there); an entry with a higher score stands before every entry with a lower one; and
  the records of one score stand in the order of the catalog scan. The search returns the
  first 20 of the ranking, normalized, when the two tiers before gave nothing.
\<close>

theorem fallback_ranking:
  "(name_lower p = Inr n \<and> str_contains query n \<and> str_contains query (brand_lower B p)
      \<longrightarrow> score_of B query p = Inr 15)
   \<and> (name_lower p = Inr n \<and> str_contains query n \<noteq> str_contains query (brand_lower B p)
      \<longrightarrow> score_of B query p = (if str_contains query n then Inr 10 else Inr 5))
   \<and> (fallback B query (PRODUCTS_MAP st) = Inr ranked
      \<longrightarrow> (\<forall>(s, r) \<in> set ranked. score_of B query r = Inr s \<and> s \<in> {5, 10, 15})
        \<and> (\<forall>i j. i < length ranked \<and> j < length ranked \<and> fst (ranked ! j) < fst (ranked ! i)
               \<longrightarrow> i < j)
        \<and> (\<forall>k. 0 < k \<longrightarrow>
               map snd (filter (\<lambda>x. fst x = k) ranked)
               = map snd (filter (\<lambda>(pid, r). score_of B query r = Inr k) (PRODUCTS_MAP st)))
        \<and> (py_strip (py_lower q) = query \<and> query \<noteq> []
             \<and> brand_matches B query (PRODUCTS_MAP st) = []
             \<and> find_anchor query (PRODUCTS_MAP st) = Inr mid
             \<and> hybrid_results st mid = Inr []
            \<longrightarrow> search_products B st (Some q)
                = Inr (map (\<lambda>item. normalize_product B (snd item)) (take 20 ranked))))"
proof (intro conjI impI allI)
  assume "name_lower p = Inr n \<and> str_contains query n \<and> str_contains query (brand_lower B p)"
  then show "score_of B query p = Inr 15" using score_of_both by blast
next
  assume "name_lower p = Inr n \<and> str_contains query n \<noteq> str_contains query (brand_lower B p)"
  then show "score_of B query p = (if str_contains query n then Inr 10 else Inr 5)"
    using score_of_one by blast
next
  assume f: "fallback B query (PRODUCTS_MAP st) = Inr ranked"
  show "\<forall>(s, r) \<in> set ranked. score_of B query r = Inr s \<and> s \<in> {5, 10, 15}"
    using fallback_entries [OF f] by blast
next
  fix i j
  assume f: "fallback B query (PRODUCTS_MAP st) = Inr ranked"
    and "i < length ranked \<and> j < length ranked \<and> fst (ranked ! j) < fst (ranked ! i)"
  then show "i < j" using fallback_higher_first [OF f] by blast
next
  fix k :: int
  assume f: "fallback B query (PRODUCTS_MAP st) = Inr ranked" and "0 < k"
  then show "map snd (filter (\<lambda>x. fst x = k) ranked)
             = map snd (filter (\<lambda>(pid, r). score_of B query r = Inr k) (PRODUCTS_MAP st))"
    by (rule fallback_stable)
next
  assume f: "fallback B query (PRODUCTS_MAP st) = Inr ranked"
    and "py_strip (py_lower q) = query \<and> query \<noteq> []
         \<and> brand_matches B query (PRODUCTS_MAP st) = []
         \<and> find_anchor query (PRODUCTS_MAP st) = Inr mid
         \<and> hybrid_results st mid = Inr []"
  then show "search_products B st (Some q)
             = Inr (map (\<lambda>item. normalize_product B (snd item)) (take 20 ranked))"
    using search_products_fallback by blast
qed


theorem fallback_ranking_witness:
  "name_lower demo_lamp_shade = Inr ''lamp shade''
   \<and> str_contains ''lamp'' ''lamp shade''
   \<and> str_contains ''lamp'' (brand_lower sample_builtins demo_lamp_shade)
   \<and> score_of sample_builtins ''lamp'' demo_lamp_shade = Inr 15
   \<and> fallback sample_builtins ''lamp'' (PRODUCTS_MAP demo_rank_state) = Inr demo_ranked
   \<and> map snd (filter (\<lambda>x. fst x = 10) demo_ranked)
       = map snd (filter (\<lambda>(pid, r). score_of sample_builtins ''lamp'' r = Inr 10)
                    (PRODUCTS_MAP demo_rank_state))
   \<and> map snd (filter (\<lambda>x. fst x = 10) demo_ranked) = [demo_desk_lamp, demo_floor_lamp]
   \<and> search_products sample_builtins demo_rank_state (Some ''Lamp'')
       = Inr (map (\<lambda>item. normalize_product sample_builtins (snd item)) (take 20 demo_ranked))"
proof -
  have h1: "name_lower demo_lamp_shade = Inr ''lamp shade''" by code_simp
  have h2: "str_contains ''lamp'' ''lamp shade''" by code_simp
  have h3: "str_contains ''lamp'' (brand_lower sample_builtins demo_lamp_shade)" by code_simp
  have h4: "fallback sample_builtins ''lamp'' (PRODUCTS_MAP demo_rank_state) = Inr demo_ranked"
    by code_simp
  have h5: "py_strip (py_lower ''Lamp'') = ''lamp''" by code_simp
  have h6: "''lamp'' \<noteq> []" by simp
  have h7: "brand_matches sample_builtins ''lamp'' (PRODUCTS_MAP demo_rank_state) = []"
    by code_simp
  have h8: "find_anchor ''lamp'' (PRODUCTS_MAP demo_rank_state) = Inr (Some ''10'')"
    by code_simp
  have h9: "hybrid_results demo_rank_state (Some ''10'') = Inr []"
    by code_simp
  have v: "map snd (filter (\<lambda>x. fst x = 10) demo_ranked) = [demo_desk_lamp, demo_floor_lamp]"
    by (simp add: demo_ranked_def)
  note t = fallback_ranking [of demo_lamp_shade "''lamp shade''" "''lamp''" sample_builtins
             demo_rank_state demo_ranked "''Lamp''" "Some ''10''"]
  from t h1 h2 h3 have a: "score_of sample_builtins ''lamp'' demo_lamp_shade = Inr 15"
    by blast
  from t h4 have s: "\<forall>k. 0 < k \<longrightarrow>
               map snd (filter (\<lambda>x. fst x = k) demo_ranked)
               = map snd (filter (\<lambda>(pid, r). score_of sample_builtins ''lamp'' r = Inr k)
                            (PRODUCTS_MAP demo_rank_state))"
    by blast
  have b: "map snd (filter (\<lambda>x. fst x = 10) demo_ranked)
       = map snd (filter (\<lambda>(pid, r). score_of sample_builtins ''lamp'' r = Inr 10)
                    (PRODUCTS_MAP demo_rank_state))"
    using s by simp
  from t h4 h5 h6 h7 h8 h9
  have c: "search_products sample_builtins demo_rank_state (Some ''Lamp'')
       = Inr (map (\<lambda>item. normalize_product sample_builtins (snd item)) (take 20 demo_ranked))"
    by blast
  show ?thesis using h1 h2 h3 a h4 b v c by (intro conjI)
qed

end
